theory Spec2Isabelle
  imports Main "HOL-Library.Word"
begin

unbundle bit_operations_syntax

section \<open>The KogitoRuntime controller (controllers/kogitoruntime_controller.go)\<close>

text \<open>
  The controller has two parts: the event-admission predicate that
  \<^verbatim>\<open>SetupWithManager\<close> installs on the KogitoRuntime watch, and the
  \<^verbatim>\<open>Reconcile\<close> pass with its helper \<^verbatim>\<open>setupRBAC\<close>.  Everything
  the pass calls outside its own file (the fetch, the idempotent create, the mount
  propagation, the service deployer) is a collaborator: a parameter of the model that
  takes the cluster state and returns the new one.  Log statements are left out.
\<close>

subsection \<open>Watch events and the admission predicate\<close>

text \<open>
  Library types (Go's time package, the Kubernetes object metadata, the controller
  runtime's event and predicate packages); none of them is part of the controller's
  file.  An instant is the seconds and nanoseconds since the zero instant, and a
  \<^verbatim>\<open>*metav1.Time\<close> is an optional instant: the nil pointer is \<open>None\<close>.
\<close>

datatype Time = Time (sec: int) (nsec: int)

record ObjectMeta =
  metaName :: string
  metaNamespace :: string
  DeletionTimestamp :: "Time option"

datatype CreateEvent = CreateEvent ObjectMeta

datatype UpdateEvent = UpdateEvent (MetaOld: ObjectMeta) (MetaNew: ObjectMeta)

datatype DeleteEvent = DeleteEvent ObjectMeta

datatype GenericEvent = GenericEvent ObjectMeta

text \<open>
  \<^verbatim>\<open>metav1.Time.IsZero\<close>: a nil pointer is zero, and so is the zero instant.
\<close>

fun IsZero :: "Time option \<Rightarrow> bool" where
  "IsZero None = True"
| "IsZero (Some t) = (sec t = 0 \<and> nsec t = 0)"

definition GetDeletionTimestamp :: "ObjectMeta \<Rightarrow> Time option" where
  "GetDeletionTimestamp m = DeletionTimestamp m"

text \<open>
  Modelled from the spec: \<^verbatim>\<open>predicate.Funcs\<close> and its four methods belong to
  the controller runtime and are not among the sources.  A function that the literal
  leaves unset is nil, and the method of a nil function admits the event; the spec's
  "Create events: always pass" is that default, since the controller sets no
  \<^verbatim>\<open>CreateFunc\<close>.
\<close>

record Funcs =
  CreateFunc :: "(CreateEvent \<Rightarrow> bool) option"
  DeleteFunc :: "(DeleteEvent \<Rightarrow> bool) option"
  UpdateFunc :: "(UpdateEvent \<Rightarrow> bool) option"
  GenericFunc :: "(GenericEvent \<Rightarrow> bool) option"

definition Create :: "Funcs \<Rightarrow> CreateEvent \<Rightarrow> bool" where
  "Create p e = (case CreateFunc p of Some f \<Rightarrow> f e | None \<Rightarrow> True)"

definition Delete :: "Funcs \<Rightarrow> DeleteEvent \<Rightarrow> bool" where
  "Delete p e = (case DeleteFunc p of Some f \<Rightarrow> f e | None \<Rightarrow> True)"

definition Update :: "Funcs \<Rightarrow> UpdateEvent \<Rightarrow> bool" where
  "Update p e = (case UpdateFunc p of Some f \<Rightarrow> f e | None \<Rightarrow> True)"

definition Generic :: "Funcs \<Rightarrow> GenericEvent \<Rightarrow> bool" where
  "Generic p e = (case GenericFunc p of Some f \<Rightarrow> f e | None \<Rightarrow> True)"

text \<open>
  The literal \<^verbatim>\<open>pred\<close> of \<^verbatim>\<open>SetupWithManager\<close>: only
  \<^verbatim>\<open>DeleteFunc\<close> and \<^verbatim>\<open>UpdateFunc\<close> are set.
\<close>

definition pred :: Funcs where
  "pred =
     \<lparr>CreateFunc = None,
      DeleteFunc = Some (\<lambda>e. False),
      UpdateFunc = Some (\<lambda>e. IsZero (GetDeletionTimestamp (MetaNew e))),
      GenericFunc = None\<rparr>"

text \<open>
  A watch event of any of the four kinds, and whether the predicate lets it enqueue a
  reconciliation request.
\<close>

datatype event =
    OnCreate CreateEvent
  | OnUpdate UpdateEvent
  | OnDelete DeleteEvent
  | OnGeneric GenericEvent

fun triggers :: "Funcs \<Rightarrow> event \<Rightarrow> bool" where
  "triggers p (OnCreate e) = Create p e"
| "triggers p (OnUpdate e) = Update p e"
| "triggers p (OnDelete e) = Delete p e"
| "triggers p (OnGeneric e) = Generic p e"

subsection \<open>Requests, results and the service definition\<close>

text \<open>
  \<^verbatim>\<open>ctrl.Request\<close> is the key (name, namespace); \<^verbatim>\<open>ctrl.Result\<close>
  carries the requeue flag and the delay.  A \<^verbatim>\<open>time.Duration\<close> is a signed
  64-bit count of nanoseconds, so \<^verbatim>\<open>requeueAfter > 0\<close> is the signed
  comparison \<open>0 <s requeueAfter\<close>.  An error value carries its message.
\<close>

type_synonym Duration = "64 word"

datatype error = Error string

record Request =
  Name :: string
  Namespace :: string

record Result =
  Requeue :: bool
  RequeueAfter :: Duration

text \<open>
  Modelled from the spec: the KogitoRuntime type and its accessors
  \<^verbatim>\<open>GetSpec\<close> and \<^verbatim>\<open>GetRuntime\<close> (package api/v1beta1) are not among
  the sources.  The spec gives a declaration its identity, a runtime-type field and a
  specification; the accessors read the fields.
\<close>

type_synonym RuntimeType = string

record KogitoRuntimeSpec =
  Runtime :: RuntimeType

record KogitoRuntime =
  Meta :: ObjectMeta
  Spec :: KogitoRuntimeSpec

definition GetSpec :: "KogitoRuntime \<Rightarrow> KogitoRuntimeSpec" where
  "GetSpec instance = Spec instance"

definition GetRuntime :: "KogitoRuntimeSpec \<Rightarrow> RuntimeType" where
  "GetRuntime s = Runtime s"

text \<open>
  Modelled from the spec: the service definition, its two probe variants and the three
  hooks (package pkg/infrastructure/services and the rest of package controllers) are
  not among the sources.  The hooks are passed to the deployer and never called by the
  pass, so a hook is its name.
\<close>

datatype HealthCheckProbeType = QuarkusHealthCheckProbe | TCPHealthCheckProbe

datatype hook = onDeploymentCreate | onObjectsCreate | onGetComparators

record ServiceDefinition =
  Request :: Request
  DefaultImageTag :: string
  SingleReplica :: bool
  OnDeploymentCreate :: hook
  OnObjectsCreate :: hook
  OnGetComparators :: hook
  CustomService :: bool
  HealthCheckProbe :: HealthCheckProbeType

subsection \<open>Collaborators and the log of their invocations\<close>

text \<open>
  What the pass imports from other packages, as parameters: two constants, the three
  constructors of the access-control objects, and the four collaborators.  A
  collaborator takes the cluster state \<open>'s\<close> first and returns what the Go function
  returns, paired with the cluster state it leaves.  \<open>'o\<close> is the type of the
  objects handed to the idempotent create.
\<close>

record ('s, 'o) env =
  QuarkusRuntimeType :: RuntimeType
  LatestTag :: string
  getServiceViewerRole :: "string \<Rightarrow> 'o"
  getServiceViewerServiceAccount :: "string \<Rightarrow> 'o"
  getServiceViewerRoleBinding :: "string \<Rightarrow> 'o"
  FetchKogitoRuntimeService ::
    "'s \<Rightarrow> string \<Rightarrow> string \<Rightarrow> (KogitoRuntime option \<times> error option) \<times> 's"
  CreateIfNotExists :: "'s \<Rightarrow> 'o \<Rightarrow> error option \<times> 's"
  MountProtoBufConfigMapOnDataIndex :: "'s \<Rightarrow> KogitoRuntime \<Rightarrow> error option \<times> 's"
  Deploy :: "'s \<Rightarrow> ServiceDefinition \<Rightarrow> KogitoRuntime \<Rightarrow> (Duration \<times> error option) \<times> 's"

text \<open>
  The pass runs in a world: the cluster state, and the log of the collaborator
  invocations so far, oldest first, each with the error it returned.
\<close>

datatype 'o call =
    FetchCall string string
  | CreateCall 'o
  | MountCall KogitoRuntime
  | DeployCall ServiceDefinition KogitoRuntime

record ('s, 'o) world =
  cluster :: 's
  calls :: "('o call \<times> error option) list"

definition fetch ::
  "('s, 'o) env \<Rightarrow> string \<Rightarrow> string \<Rightarrow> ('s, 'o) world
     \<Rightarrow> (KogitoRuntime option \<times> error option) \<times> ('s, 'o) world" where
  "fetch E name namespace w =
     (case FetchKogitoRuntimeService E (cluster w) name namespace of
        ((instance, err), c) \<Rightarrow>
          ((instance, err),
           \<lparr>cluster = c, calls = calls w @ [(FetchCall name namespace, err)]\<rparr>))"

definition create ::
  "('s, 'o) env \<Rightarrow> 'o \<Rightarrow> ('s, 'o) world \<Rightarrow> error option \<times> ('s, 'o) world" where
  "create E obj w =
     (case CreateIfNotExists E (cluster w) obj of
        (err, c) \<Rightarrow> (err, \<lparr>cluster = c, calls = calls w @ [(CreateCall obj, err)]\<rparr>))"

definition mount ::
  "('s, 'o) env \<Rightarrow> KogitoRuntime \<Rightarrow> ('s, 'o) world \<Rightarrow> error option \<times> ('s, 'o) world" where
  "mount E instance w =
     (case MountProtoBufConfigMapOnDataIndex E (cluster w) instance of
        (err, c) \<Rightarrow> (err, \<lparr>cluster = c, calls = calls w @ [(MountCall instance, err)]\<rparr>))"

definition deploy ::
  "('s, 'o) env \<Rightarrow> ServiceDefinition \<Rightarrow> KogitoRuntime \<Rightarrow> ('s, 'o) world
     \<Rightarrow> (Duration \<times> error option) \<times> ('s, 'o) world" where
  "deploy E d instance w =
     (case Deploy E (cluster w) d instance of
        ((requeueAfter, err), c) \<Rightarrow>
          ((requeueAfter, err),
           \<lparr>cluster = c, calls = calls w @ [(DeployCall d instance, err)]\<rparr>))"

subsection \<open>setupRBAC and Reconcile\<close>

text \<open>
  \<^verbatim>\<open>setupRBAC\<close>: role, service account, role binding; the first error is
  returned at once.
\<close>

definition setupRBAC ::
  "('s, 'o) env \<Rightarrow> string \<Rightarrow> ('s, 'o) world \<Rightarrow> error option \<times> ('s, 'o) world" where
  "setupRBAC E namespace w =
     (case create E (getServiceViewerRole E namespace) w of
        (Some err, w1) \<Rightarrow> (Some err, w1)
      | (None, w1) \<Rightarrow>
          (case create E (getServiceViewerServiceAccount E namespace) w1 of
             (Some err, w2) \<Rightarrow> (Some err, w2)
           | (None, w2) \<Rightarrow>
               (case create E (getServiceViewerRoleBinding E namespace) w2 of
                  (Some err, w3) \<Rightarrow> (Some err, w3)
                | (None, w3) \<Rightarrow> (None, w3))))"

text \<open>
  The service definition that \<^verbatim>\<open>Reconcile\<close> builds before it calls the
  deployer, with the probe chosen from the instance's runtime.
\<close>

definition healthCheckProbeType :: "('s, 'o) env \<Rightarrow> KogitoRuntime \<Rightarrow> HealthCheckProbeType" where
  "healthCheckProbeType E instance =
     (if GetRuntime (GetSpec instance) = QuarkusRuntimeType E
      then QuarkusHealthCheckProbe else TCPHealthCheckProbe)"

definition definition_of ::
  "('s, 'o) env \<Rightarrow> Request \<Rightarrow> KogitoRuntime \<Rightarrow> ServiceDefinition" where
  "definition_of E req instance =
     \<lparr>Request = req,
      DefaultImageTag = LatestTag E,
      SingleReplica = False,
      OnDeploymentCreate = onDeploymentCreate,
      OnObjectsCreate = onObjectsCreate,
      OnGetComparators = onGetComparators,
      CustomService = True,
      HealthCheckProbe = healthCheckProbeType E instance\<rparr>"

text \<open>
  \<^verbatim>\<open>Reconcile\<close> has the named results \<^verbatim>\<open>result\<close> and
  \<^verbatim>\<open>err\<close>: every bare \<^verbatim>\<open>return\<close> returns the zero result unless the
  last branch has set it.
\<close>

definition zeroResult :: Result where
  "zeroResult = \<lparr>Requeue = False, RequeueAfter = 0\<rparr>"

definition Reconcile ::
  "('s, 'o) env \<Rightarrow> Request \<Rightarrow> ('s, 'o) world
     \<Rightarrow> (Result \<times> error option) \<times> ('s, 'o) world" where
  "Reconcile E req w =
     (case fetch E (Name req) (Namespace req) w of
        ((instance, err), w1) \<Rightarrow>
          if err \<noteq> None then ((zeroResult, err), w1)
          else
            (case instance of
               None \<Rightarrow> ((zeroResult, None), w1)
             | Some instance \<Rightarrow>
                 (case setupRBAC E (Namespace req) w1 of
                    (Some err, w2) \<Rightarrow> ((zeroResult, Some err), w2)
                  | (None, w2) \<Rightarrow>
                      (case mount E instance w2 of
                         (Some err, w3) \<Rightarrow> ((zeroResult, Some err), w3)
                       | (None, w3) \<Rightarrow>
                           (case deploy E (definition_of E req instance) instance w3 of
                              ((requeueAfter, err), w4) \<Rightarrow>
                                if err \<noteq> None then ((zeroResult, err), w4)
                                else if 0 <s requeueAfter
                                then ((\<lparr>Requeue = True, RequeueAfter = requeueAfter\<rparr>, None), w4)
                                else ((zeroResult, None), w4))))))"

subsection \<open>Replaying a log\<close>

text \<open>
  What one logged invocation does to the cluster, and what a list of them does in
  order.  A pass that changed the cluster in any other way than through the calls of
  its log (a rollback, a compensation) would not end in the replayed state.
\<close>

fun perform :: "('s, 'o) env \<Rightarrow> 'o call \<Rightarrow> 's \<Rightarrow> error option \<times> 's" where
  "perform E (FetchCall name namespace) c =
     (case FetchKogitoRuntimeService E c name namespace of ((_, err), c') \<Rightarrow> (err, c'))"
| "perform E (CreateCall obj) c = CreateIfNotExists E c obj"
| "perform E (MountCall instance) c = MountProtoBufConfigMapOnDataIndex E c instance"
| "perform E (DeployCall d instance) c =
     (case Deploy E c d instance of ((_, err), c') \<Rightarrow> (err, c'))"

fun replay :: "('s, 'o) env \<Rightarrow> 'o call list \<Rightarrow> 's \<Rightarrow> 's" where
  "replay E [] c = c"
| "replay E (a # as) c = replay E as (snd (perform E a c))"

text \<open>
  The log that the collaborators themselves would produce when the calls are made in
  order, each on the cluster the previous one left.
\<close>

fun outcomes :: "('s, 'o) env \<Rightarrow> 'o call list \<Rightarrow> 's \<Rightarrow> ('o call \<times> error option) list" where
  "outcomes E [] c = []"
| "outcomes E (a # as) c = (a, fst (perform E a c)) # outcomes E as (snd (perform E a c))"

text \<open>
  The calls that follow the fetch in a pass for request \<open>req\<close> that fetched
  \<open>instance\<close> and met no error, in the order of the source: the three creates of
  \<^verbatim>\<open>setupRBAC\<close>, the mount propagation, the deployer.
\<close>

definition passCalls :: "('s, 'o) env \<Rightarrow> Request \<Rightarrow> KogitoRuntime \<Rightarrow> 'o call list" where
  "passCalls E req instance =
     [CreateCall (getServiceViewerRole E (Namespace req)),
      CreateCall (getServiceViewerServiceAccount E (Namespace req)),
      CreateCall (getServiceViewerRoleBinding E (Namespace req)),
      MountCall instance,
      DeployCall (definition_of E req instance) instance]"

subsection \<open>The idempotence contract of the collaborators\<close>

text \<open>
  A call is settled on a cluster when making it there returns no error and leaves the
  cluster as it is.
\<close>

definition settled :: "('s, 'o) env \<Rightarrow> 'o call \<Rightarrow> 's \<Rightarrow> bool" where
  "settled E a c \<longleftrightarrow> perform E a c = (None, c)"

text \<open>
  The contract, for the key of request \<open>req\<close>: the fetch only reads; and whenever a
  call of the pass succeeds, repeating it on the cluster it left is settled, the fetch
  returns there what it returned before, and every call of the pass that was settled
  before is settled still (no collaborator undoes the work of another).
\<close>

definition idempotentCollaborators :: "('s, 'o) env \<Rightarrow> Request \<Rightarrow> bool" where
  "idempotentCollaborators E req \<longleftrightarrow>
     (\<forall>c. snd (FetchKogitoRuntimeService E c (Name req) (Namespace req)) = c)
   \<and> (\<forall>instance a c c'.
        a \<in> set (passCalls E req instance) \<and> perform E a c = (None, c') \<longrightarrow>
          settled E a c'
        \<and> fst (FetchKogitoRuntimeService E c' (Name req) (Namespace req))
            = fst (FetchKogitoRuntimeService E c (Name req) (Namespace req))
        \<and> (\<forall>b \<in> set (passCalls E req instance). settled E b c \<longrightarrow> settled E b c'))"

subsection \<open>A concrete cluster\<close>

text \<open>
  A small cluster on which the pass can be run: the cluster state is the list of the
  names of the objects that exist, the access-control objects are named after their
  namespace, and the objects listed in \<open>denied\<close> cannot be created.  Two declarations
  exist in namespace ns1, one per runtime type; the deployer asks for a requeue after 30
  seconds when it has just created the deployment.
\<close>

definition instanceA :: KogitoRuntime where
  "instanceA =
     \<lparr>Meta = \<lparr>metaName = ''runtimeA'', metaNamespace = ''ns1'', DeletionTimestamp = None\<rparr>,
      Spec = \<lparr>Runtime = ''quarkus''\<rparr>\<rparr>"

definition instanceB :: KogitoRuntime where
  "instanceB =
     \<lparr>Meta = \<lparr>metaName = ''runtimeB'', metaNamespace = ''ns1'', DeletionTimestamp = None\<rparr>,
      Spec = \<lparr>Runtime = ''springboot''\<rparr>\<rparr>"

definition exampleEnv :: "string list \<Rightarrow> (string list, string) env" where
  "exampleEnv denied =
     \<lparr>QuarkusRuntimeType = ''quarkus'',
      LatestTag = ''latest'',
      getServiceViewerRole = (\<lambda>ns. ''role/'' @ ns),
      getServiceViewerServiceAccount = (\<lambda>ns. ''sa/'' @ ns),
      getServiceViewerRoleBinding = (\<lambda>ns. ''rb/'' @ ns),
      FetchKogitoRuntimeService =
        (\<lambda>c name ns.
           if name = ''runtimeA'' \<and> ns = ''ns1'' then ((Some instanceA, None), c)
           else if name = ''runtimeB'' \<and> ns = ''ns1'' then ((Some instanceB, None), c)
           else if name = ''unreachable'' then ((None, Some (Error ''timeout'')), c)
           else ((None, None), c)),
      CreateIfNotExists =
        (\<lambda>c obj.
           if obj \<in> set denied then (Some (Error ''forbidden''), c)
           else if obj \<in> set c then (None, c)
           else (None, c @ [obj])),
      MountProtoBufConfigMapOnDataIndex =
        (\<lambda>c instance.
           if ''mount'' \<in> set denied then (Some (Error ''forbidden''), c)
           else if ''mount'' \<in> set c then (None, c)
           else (None, c @ [''mount''])),
      Deploy =
        (\<lambda>c d instance.
           if ''deployment'' \<in> set denied then ((0, Some (Error ''forbidden'')), c)
           else if ''deployment'' \<in> set c then ((0, None), c)
           else ((30000000000, None), c @ [''deployment'']))\<rparr>"

definition reqA :: Request where
  "reqA = \<lparr>Name = ''runtimeA'', Namespace = ''ns1''\<rparr>"

definition reqB :: Request where
  "reqB = \<lparr>Name = ''runtimeB'', Namespace = ''ns1''\<rparr>"

definition reqGone :: Request where
  "reqGone = \<lparr>Name = ''gone'', Namespace = ''ns1''\<rparr>"

definition emptyWorld :: "(string list, string) world" where
  "emptyWorld = \<lparr>cluster = [], calls = []\<rparr>"

text \<open>The part of the log that a pass from world \<open>w\<close> to world \<open>w'\<close> wrote.\<close>

definition passLog ::
  "('s, 'o) world \<Rightarrow> ('s, 'o) world \<Rightarrow> ('o call \<times> error option) list" where
  "passLog w w' = drop (length (calls w)) (calls w')"

fun isCreate :: "'o call \<times> error option \<Rightarrow> bool" where
  "isCreate (CreateCall _, _) = True"
| "isCreate _ = False"

section \<open>Auxiliary lemmas\<close>

lemmas pass_defs = Reconcile_def setupRBAC_def fetch_def create_def mount_def deploy_def

lemmas example_defs = exampleEnv_def reqA_def reqB_def reqGone_def emptyWorld_def

text \<open>
  A pass takes one of eight courses: the fetch fails, the instance is absent, one of the
  five later calls fails, or all of them succeed.  Each course fixes what the
  collaborators returned, the result, and the world the pass leaves.
\<close>

lemma Reconcile_cases [case_names fetchErr absent roleErr saErr rbErr mountErr deployErr complete]:
  obtains
    (fetchErr) i err c0 where
      "FetchKogitoRuntimeService E (cluster w) (Name req) (Namespace req) = ((i, Some err), c0)"
      "Reconcile E req w =
         ((zeroResult, Some err),
          \<lparr>cluster = c0, calls = calls w @ [(FetchCall (Name req) (Namespace req), Some err)]\<rparr>)"
  | (absent) c0 where
      "FetchKogitoRuntimeService E (cluster w) (Name req) (Namespace req) = ((None, None), c0)"
      "Reconcile E req w =
         ((zeroResult, None),
          \<lparr>cluster = c0, calls = calls w @ [(FetchCall (Name req) (Namespace req), None)]\<rparr>)"
  | (roleErr) i c0 err c1 where
      "FetchKogitoRuntimeService E (cluster w) (Name req) (Namespace req) = ((Some i, None), c0)"
      "CreateIfNotExists E c0 (getServiceViewerRole E (Namespace req)) = (Some err, c1)"
      "Reconcile E req w =
         ((zeroResult, Some err),
          \<lparr>cluster = c1,
           calls = calls w @ [(FetchCall (Name req) (Namespace req), None),
               (CreateCall (getServiceViewerRole E (Namespace req)), Some err)]\<rparr>)"
  | (saErr) i c0 c1 err c2 where
      "FetchKogitoRuntimeService E (cluster w) (Name req) (Namespace req) = ((Some i, None), c0)"
      "CreateIfNotExists E c0 (getServiceViewerRole E (Namespace req)) = (None, c1)"
      "CreateIfNotExists E c1 (getServiceViewerServiceAccount E (Namespace req)) = (Some err, c2)"
      "Reconcile E req w =
         ((zeroResult, Some err),
          \<lparr>cluster = c2,
           calls = calls w @ [(FetchCall (Name req) (Namespace req), None),
               (CreateCall (getServiceViewerRole E (Namespace req)), None),
               (CreateCall (getServiceViewerServiceAccount E (Namespace req)), Some err)]\<rparr>)"
  | (rbErr) i c0 c1 c2 err c3 where
      "FetchKogitoRuntimeService E (cluster w) (Name req) (Namespace req) = ((Some i, None), c0)"
      "CreateIfNotExists E c0 (getServiceViewerRole E (Namespace req)) = (None, c1)"
      "CreateIfNotExists E c1 (getServiceViewerServiceAccount E (Namespace req)) = (None, c2)"
      "CreateIfNotExists E c2 (getServiceViewerRoleBinding E (Namespace req)) = (Some err, c3)"
      "Reconcile E req w =
         ((zeroResult, Some err),
          \<lparr>cluster = c3,
           calls = calls w @ [(FetchCall (Name req) (Namespace req), None),
               (CreateCall (getServiceViewerRole E (Namespace req)), None),
               (CreateCall (getServiceViewerServiceAccount E (Namespace req)), None),
               (CreateCall (getServiceViewerRoleBinding E (Namespace req)), Some err)]\<rparr>)"
  | (mountErr) i c0 c1 c2 c3 err c4 where
      "FetchKogitoRuntimeService E (cluster w) (Name req) (Namespace req) = ((Some i, None), c0)"
      "CreateIfNotExists E c0 (getServiceViewerRole E (Namespace req)) = (None, c1)"
      "CreateIfNotExists E c1 (getServiceViewerServiceAccount E (Namespace req)) = (None, c2)"
      "CreateIfNotExists E c2 (getServiceViewerRoleBinding E (Namespace req)) = (None, c3)"
      "MountProtoBufConfigMapOnDataIndex E c3 i = (Some err, c4)"
      "Reconcile E req w =
         ((zeroResult, Some err),
          \<lparr>cluster = c4,
           calls = calls w @ [(FetchCall (Name req) (Namespace req), None),
               (CreateCall (getServiceViewerRole E (Namespace req)), None),
               (CreateCall (getServiceViewerServiceAccount E (Namespace req)), None),
               (CreateCall (getServiceViewerRoleBinding E (Namespace req)), None),
               (MountCall i, Some err)]\<rparr>)"
  | (deployErr) i c0 c1 c2 c3 c4 d err c5 where
      "FetchKogitoRuntimeService E (cluster w) (Name req) (Namespace req) = ((Some i, None), c0)"
      "CreateIfNotExists E c0 (getServiceViewerRole E (Namespace req)) = (None, c1)"
      "CreateIfNotExists E c1 (getServiceViewerServiceAccount E (Namespace req)) = (None, c2)"
      "CreateIfNotExists E c2 (getServiceViewerRoleBinding E (Namespace req)) = (None, c3)"
      "MountProtoBufConfigMapOnDataIndex E c3 i = (None, c4)"
      "Deploy E c4 (definition_of E req i) i = ((d, Some err), c5)"
      "Reconcile E req w =
         ((zeroResult, Some err),
          \<lparr>cluster = c5,
           calls = calls w @ [(FetchCall (Name req) (Namespace req), None),
               (CreateCall (getServiceViewerRole E (Namespace req)), None),
               (CreateCall (getServiceViewerServiceAccount E (Namespace req)), None),
               (CreateCall (getServiceViewerRoleBinding E (Namespace req)), None),
               (MountCall i, None),
               (DeployCall (definition_of E req i) i, Some err)]\<rparr>)"
  | (complete) i c0 c1 c2 c3 c4 d c5 where
      "FetchKogitoRuntimeService E (cluster w) (Name req) (Namespace req) = ((Some i, None), c0)"
      "CreateIfNotExists E c0 (getServiceViewerRole E (Namespace req)) = (None, c1)"
      "CreateIfNotExists E c1 (getServiceViewerServiceAccount E (Namespace req)) = (None, c2)"
      "CreateIfNotExists E c2 (getServiceViewerRoleBinding E (Namespace req)) = (None, c3)"
      "MountProtoBufConfigMapOnDataIndex E c3 i = (None, c4)"
      "Deploy E c4 (definition_of E req i) i = ((d, None), c5)"
      "Reconcile E req w =
         ((if 0 <s d then \<lparr>Requeue = True, RequeueAfter = d\<rparr> else zeroResult, None),
          \<lparr>cluster = c5,
           calls = calls w @ [(FetchCall (Name req) (Namespace req), None),
               (CreateCall (getServiceViewerRole E (Namespace req)), None),
               (CreateCall (getServiceViewerServiceAccount E (Namespace req)), None),
               (CreateCall (getServiceViewerRoleBinding E (Namespace req)), None),
               (MountCall i, None),
               (DeployCall (definition_of E req i) i, None)]\<rparr>)"
proof -
  obtain i0 e0 c0 where f:
    "FetchKogitoRuntimeService E (cluster w) (Name req) (Namespace req) = ((i0, e0), c0)"
    by (metis surj_pair)
  obtain e1 c1 where r:
    "CreateIfNotExists E c0 (getServiceViewerRole E (Namespace req)) = (e1, c1)"
    by (rule prod.exhaust)
  obtain e2 c2 where s:
    "CreateIfNotExists E c1 (getServiceViewerServiceAccount E (Namespace req)) = (e2, c2)"
    by (rule prod.exhaust)
  obtain e3 c3 where b:
    "CreateIfNotExists E c2 (getServiceViewerRoleBinding E (Namespace req)) = (e3, c3)"
    by (rule prod.exhaust)
  obtain e4 c4 where m:
    "MountProtoBufConfigMapOnDataIndex E c3 (the i0) = (e4, c4)"
    by (rule prod.exhaust)
  obtain d e5 c5 where p:
    "Deploy E c4 (definition_of E req (the i0)) (the i0) = ((d, e5), c5)"
    by (metis surj_pair)
  show thesis
  proof (cases e0)
    case (Some err)
    with f show thesis
      by (intro fetchErr[of i0 err c0]) (simp_all add: Reconcile_def fetch_def)
  next
    case e0: None
    show thesis
    proof (cases i0)
      case None
      with f e0 show thesis
        by (intro absent[of c0]) (simp_all add: Reconcile_def fetch_def)
    next
      case (Some i)
      note i = this e0
      show thesis
      proof (cases e1)
        case (Some err)
        with f r i show thesis
          by (intro roleErr[of i c0 err c1])
            (simp_all add: Reconcile_def fetch_def setupRBAC_def create_def)
      next
        case e1: None
        show thesis
        proof (cases e2)
          case (Some err)
          with f r s i e1 show thesis
            by (intro saErr[of i c0 c1 err c2])
              (simp_all add: Reconcile_def fetch_def setupRBAC_def create_def)
        next
          case e2: None
          show thesis
          proof (cases e3)
            case (Some err)
            with f r s b i e1 e2 show thesis
              by (intro rbErr[of i c0 c1 c2 err c3])
                (simp_all add: Reconcile_def fetch_def setupRBAC_def create_def)
          next
            case e3: None
            show thesis
            proof (cases e4)
              case (Some err)
              with f r s b m i e1 e2 e3 show thesis
                by (intro mountErr[of i c0 c1 c2 c3 err c4])
                  (simp_all add: Reconcile_def fetch_def setupRBAC_def create_def mount_def)
            next
              case e4: None
              show thesis
              proof (cases e5)
                case (Some err)
                with f r s b m p i e1 e2 e3 e4 show thesis
                  by (intro deployErr[of i c0 c1 c2 c3 c4 d err c5])
                    (simp_all add: Reconcile_def fetch_def setupRBAC_def create_def mount_def
                      deploy_def)
              next
                case None
                with f r s b m p i e1 e2 e3 e4 show thesis
                  by (intro complete[of i c0 c1 c2 c3 c4 d c5])
                    (simp_all add: Reconcile_def fetch_def setupRBAC_def create_def mount_def
                      deploy_def)
              qed
            qed
          qed
        qed
      qed
    qed
  qed
qed

text \<open>The creates that a pass logs are those of \<^verbatim>\<open>setupRBAC\<close> on the cluster the fetch left.\<close>

lemma Reconcile_creates_setupRBAC:
  assumes "FetchKogitoRuntimeService E (cluster w) (Name req) (Namespace req)
             = ((Some instance, None), c)"
  shows "filter isCreate (passLog w (snd (Reconcile E req w)))
         = calls (snd (setupRBAC E (Namespace req) \<lparr>cluster = c, calls = []\<rparr>))"
  using assms
  by (cases rule: Reconcile_cases[of E w req])
     (simp_all add: passLog_def setupRBAC_def create_def)

text \<open>What the contract gives for one successful call of the pass.\<close>

lemma contract_step:
  assumes "idempotentCollaborators E req"
    and "a \<in> set (passCalls E req instance)"
    and "perform E a c = (None, c')"
  shows "settled E a c'"
    and "fst (FetchKogitoRuntimeService E c' (Name req) (Namespace req))
         = fst (FetchKogitoRuntimeService E c (Name req) (Namespace req))"
    and "\<And>b. b \<in> set (passCalls E req instance) \<Longrightarrow> settled E b c \<Longrightarrow> settled E b c'"
  using assms unfolding idempotentCollaborators_def by blast+

lemma fetch_reads:
  assumes "idempotentCollaborators E req"
  shows "snd (FetchKogitoRuntimeService E c (Name req) (Namespace req)) = c"
  using assms unfolding idempotentCollaborators_def by blast

text \<open>A pass on a cluster where the fetch finds the instance and every call is settled.\<close>

lemma Reconcile_settled:
  assumes f: "FetchKogitoRuntimeService E (cluster w) (Name req) (Namespace req)
                = ((Some i, None), cluster w)"
    and s: "\<And>a. a \<in> set (passCalls E req i) \<Longrightarrow> settled E a (cluster w)"
  shows "snd (fst (Reconcile E req w)) = None
       \<and> snd (Reconcile E req w)
         = \<lparr>cluster = cluster w,
            calls = calls w @ map (\<lambda>a. (a, None)) (FetchCall (Name req) (Namespace req)
                                                       # passCalls E req i)\<rparr>"
proof -
  have r: "CreateIfNotExists E (cluster w) (getServiceViewerRole E (Namespace req))
             = (None, cluster w)"
    using s[of "CreateCall (getServiceViewerRole E (Namespace req))"]
    by (simp add: passCalls_def settled_def)
  have a: "CreateIfNotExists E (cluster w) (getServiceViewerServiceAccount E (Namespace req))
             = (None, cluster w)"
    using s[of "CreateCall (getServiceViewerServiceAccount E (Namespace req))"]
    by (simp add: passCalls_def settled_def)
  have b: "CreateIfNotExists E (cluster w) (getServiceViewerRoleBinding E (Namespace req))
             = (None, cluster w)"
    using s[of "CreateCall (getServiceViewerRoleBinding E (Namespace req))"]
    by (simp add: passCalls_def settled_def)
  have m: "MountProtoBufConfigMapOnDataIndex E (cluster w) i = (None, cluster w)"
    using s[of "MountCall i"] by (simp add: passCalls_def settled_def)
  have "perform E (DeployCall (definition_of E req i) i) (cluster w) = (None, cluster w)"
    using s[of "DeployCall (definition_of E req i) i"] by (simp add: passCalls_def settled_def)
  then obtain d where d: "Deploy E (cluster w) (definition_of E req i) i = ((d, None), cluster w)"
    by (auto split: prod.splits)
  show ?thesis
    using f r a b m d by (simp add: pass_defs passCalls_def)
qed

text \<open>Passes on the concrete cluster.\<close>

lemma run_reqA:
  "Reconcile (exampleEnv []) reqA emptyWorld =
     ((\<lparr>Requeue = True, RequeueAfter = 30000000000\<rparr>, None),
      \<lparr>cluster = [''role/ns1'', ''sa/ns1'', ''rb/ns1'', ''mount'', ''deployment''],
       calls = [(FetchCall ''runtimeA'' ''ns1'', None),
                (CreateCall ''role/ns1'', None),
                (CreateCall ''sa/ns1'', None),
                (CreateCall ''rb/ns1'', None),
                (MountCall instanceA, None),
                (DeployCall (definition_of (exampleEnv []) reqA instanceA) instanceA, None)]\<rparr>)"
  by (simp add: pass_defs example_defs word_sless_alt)

lemma run_reqB:
  "Reconcile (exampleEnv []) reqB emptyWorld =
     ((\<lparr>Requeue = True, RequeueAfter = 30000000000\<rparr>, None),
      \<lparr>cluster = [''role/ns1'', ''sa/ns1'', ''rb/ns1'', ''mount'', ''deployment''],
       calls = [(FetchCall ''runtimeB'' ''ns1'', None),
                (CreateCall ''role/ns1'', None),
                (CreateCall ''sa/ns1'', None),
                (CreateCall ''rb/ns1'', None),
                (MountCall instanceB, None),
                (DeployCall (definition_of (exampleEnv []) reqB instanceB) instanceB, None)]\<rparr>)"
  by (simp add: pass_defs example_defs word_sless_alt)

lemma run_reqA_sa_denied:
  "Reconcile (exampleEnv [''sa/ns1'']) reqA emptyWorld =
     ((zeroResult, Some (Error ''forbidden'')),
      \<lparr>cluster = [''role/ns1''],
       calls = [(FetchCall ''runtimeA'' ''ns1'', None),
                (CreateCall ''role/ns1'', None),
                (CreateCall ''sa/ns1'', Some (Error ''forbidden''))]\<rparr>)"
  by (simp add: pass_defs example_defs)

lemma run_reqA_role_denied:
  "Reconcile (exampleEnv [''role/ns1'']) reqA emptyWorld =
     ((zeroResult, Some (Error ''forbidden'')),
      \<lparr>cluster = [],
       calls = [(FetchCall ''runtimeA'' ''ns1'', None),
                (CreateCall ''role/ns1'', Some (Error ''forbidden''))]\<rparr>)"
  by (simp add: pass_defs example_defs)


text \<open>
  The collaborators of the concrete cluster keep the contract: every call of a pass adds
  one object unless it is there, and is settled once it is.
\<close>

lemma exampleEnv_call:
  assumes "a \<in> set (passCalls (exampleEnv []) reqA instance)"
  shows "\<exists>k. \<forall>c. perform (exampleEnv []) a c = (None, if k \<in> set c then c else c @ [k])"
proof -
  from assms consider
      (create) obj where "a = CreateCall obj"
    | (mount) "a = MountCall instance"
    | (deploy) d where "a = DeployCall d instance"
    by (auto simp: passCalls_def)
  then show ?thesis
  proof cases
    case create
    then show ?thesis
      by (intro exI[of _ obj]) (simp add: exampleEnv_def)
  next
    case mount
    then show ?thesis
      by (intro exI[of _ "''mount''"]) (simp add: exampleEnv_def)
  next
    case deploy
    then show ?thesis
      by (intro exI[of _ "''deployment''"]) (simp add: exampleEnv_def)
  qed
qed

lemma exampleEnv_fetch:
  "FetchKogitoRuntimeService (exampleEnv []) c (Name reqA) (Namespace reqA)
     = ((Some instanceA, None), c)"
  by (simp add: exampleEnv_def reqA_def)

lemma exampleEnv_idempotent: "idempotentCollaborators (exampleEnv []) reqA"
  unfolding idempotentCollaborators_def
proof (intro conjI allI impI ballI)
  fix c
  show "snd (FetchKogitoRuntimeService (exampleEnv []) c (Name reqA) (Namespace reqA)) = c"
    by (simp add: exampleEnv_fetch)
next
  fix i a c c'
  assume h: "a \<in> set (passCalls (exampleEnv []) reqA i)
             \<and> perform (exampleEnv []) a c = (None, c')"
  then obtain k where
    k: "\<And>c. perform (exampleEnv []) a c = (None, if k \<in> set c then c else c @ [k])"
    using exampleEnv_call by blast
  with h have "c' = (if k \<in> set c then c else c @ [k])"
    by simp
  then show "settled (exampleEnv []) a c'"
    by (simp add: settled_def k)
next
  fix i a c c'
  show "fst (FetchKogitoRuntimeService (exampleEnv []) c' (Name reqA) (Namespace reqA))
        = fst (FetchKogitoRuntimeService (exampleEnv []) c (Name reqA) (Namespace reqA))"
    by (simp add: exampleEnv_fetch)
next
  fix i a c c' b
  assume h: "a \<in> set (passCalls (exampleEnv []) reqA i)
             \<and> perform (exampleEnv []) a c = (None, c')"
    and b: "b \<in> set (passCalls (exampleEnv []) reqA i)"
    and s: "settled (exampleEnv []) b c"
  from h obtain k where
    k: "\<And>c. perform (exampleEnv []) a c = (None, if k \<in> set c then c else c @ [k])"
    using exampleEnv_call by blast
  from b obtain j where
    j: "\<And>c. perform (exampleEnv []) b c = (None, if j \<in> set c then c else c @ [j])"
    using exampleEnv_call by blast
  from h k have c': "c' = (if k \<in> set c then c else c @ [k])"
    by simp
  from s j have "j \<in> set c"
    by (simp add: settled_def split: if_splits)
  with c' have "j \<in> set c'"
    by simp
  then show "settled (exampleEnv []) b c'"
    by (simp add: settled_def j)
qed

section \<open>Properties\<close>

subsection \<open>The admission predicate\<close>

text \<open>
  C3: no delete event triggers a reconciliation; an update event triggers one exactly
  when the deletion timestamp of the new object is zero (a nil pointer or the zero
  instant); every create event triggers one.
\<close>

theorem pred_admission:
  "triggers pred (OnDelete d) = False
   \<and> triggers pred (OnUpdate u) = IsZero (DeletionTimestamp (MetaNew u))
   \<and> triggers pred (OnCreate c) = True"
  by (simp add: pred_def Create_def Update_def Delete_def GetDeletionTimestamp_def)

text \<open>
  C9: every generic event triggers a reconciliation, because the predicate sets no
  \<^verbatim>\<open>GenericFunc\<close> and the unset function admits the event.
\<close>

theorem pred_generic_admitted:
  "triggers pred (OnGeneric g) = True \<and> GenericFunc pred = None"
  by (simp add: pred_def Generic_def)

subsection \<open>The result of a pass\<close>

text \<open>
  C4: when the fetch reports the instance absent and no error, the pass returns the zero
  result and no error, and the fetch is the only call it makes: no create, no mount
  propagation, no deployer call is logged, and the cluster is as the fetch left it.
\<close>

theorem Reconcile_absent:
  assumes "FetchKogitoRuntimeService E (cluster w) (Name req) (Namespace req) = ((None, None), c)"
  shows "Reconcile E req w =
          ((\<lparr>Requeue = False, RequeueAfter = 0\<rparr>, None),
           \<lparr>cluster = c, calls = calls w @ [(FetchCall (Name req) (Namespace req), None)]\<rparr>)"
  using assms by (simp add: Reconcile_def fetch_def zeroResult_def)

theorem Reconcile_absent_witness:
  "FetchKogitoRuntimeService (exampleEnv []) (cluster emptyWorld) (Name reqGone) (Namespace reqGone)
     = ((None, None), [])
   \<and> Reconcile (exampleEnv []) reqGone emptyWorld =
       ((\<lparr>Requeue = False, RequeueAfter = 0\<rparr>, None),
        \<lparr>cluster = [], calls = [(FetchCall ''gone'' ''ns1'', None)]\<rparr>)"
proof -
  have h: "FetchKogitoRuntimeService (exampleEnv []) (cluster emptyWorld) (Name reqGone)
             (Namespace reqGone) = ((None, None), [])"
    by (simp add: example_defs)
  from Reconcile_absent[OF h] h show ?thesis
    by (simp add: reqGone_def emptyWorld_def)
qed

text \<open>
  C2: in a pass that reaches the deployer (the fetch found the instance, and the
  bootstrap and the mount propagation returned no error), when the deployer returns the
  duration \<open>d\<close> and no error: if \<open>d > 0\<close> the pass returns no error and a result
  that asks for a requeue after exactly \<open>d\<close>; if \<open>d = 0\<close> it returns no error and
  the zero result.
\<close>

theorem Reconcile_requeue:
  assumes "fetch E (Name req) (Namespace req) w = ((Some instance, None), w1)"
    and "setupRBAC E (Namespace req) w1 = (None, w2)"
    and "mount E instance w2 = (None, w3)"
    and "deploy E (definition_of E req instance) instance w3 = ((d, None), w4)"
  shows "(0 <s d \<longrightarrow>
            Reconcile E req w = ((\<lparr>Requeue = True, RequeueAfter = d\<rparr>, None), w4))
       \<and> (d = 0 \<longrightarrow>
            Reconcile E req w = ((\<lparr>Requeue = False, RequeueAfter = 0\<rparr>, None), w4))"
  using assms by (simp add: Reconcile_def zeroResult_def)

theorem Reconcile_requeue_witness:
  "fetch (exampleEnv []) (Name reqA) (Namespace reqA) emptyWorld =
     ((Some instanceA, None),
      \<lparr>cluster = [], calls = [(FetchCall ''runtimeA'' ''ns1'', None)]\<rparr>)
   \<and> setupRBAC (exampleEnv []) (Namespace reqA)
        \<lparr>cluster = [], calls = [(FetchCall ''runtimeA'' ''ns1'', None)]\<rparr> =
     (None,
      \<lparr>cluster = [''role/ns1'', ''sa/ns1'', ''rb/ns1''],
       calls = [(FetchCall ''runtimeA'' ''ns1'', None), (CreateCall ''role/ns1'', None),
                (CreateCall ''sa/ns1'', None), (CreateCall ''rb/ns1'', None)]\<rparr>)
   \<and> mount (exampleEnv []) instanceA
        \<lparr>cluster = [''role/ns1'', ''sa/ns1'', ''rb/ns1''],
         calls = [(FetchCall ''runtimeA'' ''ns1'', None), (CreateCall ''role/ns1'', None),
                  (CreateCall ''sa/ns1'', None), (CreateCall ''rb/ns1'', None)]\<rparr> =
     (None,
      \<lparr>cluster = [''role/ns1'', ''sa/ns1'', ''rb/ns1'', ''mount''],
       calls = [(FetchCall ''runtimeA'' ''ns1'', None), (CreateCall ''role/ns1'', None),
                (CreateCall ''sa/ns1'', None), (CreateCall ''rb/ns1'', None),
                (MountCall instanceA, None)]\<rparr>)
   \<and> deploy (exampleEnv []) (definition_of (exampleEnv []) reqA instanceA) instanceA
        \<lparr>cluster = [''role/ns1'', ''sa/ns1'', ''rb/ns1'', ''mount''],
         calls = [(FetchCall ''runtimeA'' ''ns1'', None), (CreateCall ''role/ns1'', None),
                  (CreateCall ''sa/ns1'', None), (CreateCall ''rb/ns1'', None),
                  (MountCall instanceA, None)]\<rparr> =
     ((30000000000, None),
      \<lparr>cluster = [''role/ns1'', ''sa/ns1'', ''rb/ns1'', ''mount'', ''deployment''],
       calls = [(FetchCall ''runtimeA'' ''ns1'', None), (CreateCall ''role/ns1'', None),
                (CreateCall ''sa/ns1'', None), (CreateCall ''rb/ns1'', None),
                (MountCall instanceA, None),
                (DeployCall (definition_of (exampleEnv []) reqA instanceA) instanceA, None)]\<rparr>)
   \<and> 0 <s (30000000000 :: Duration)
   \<and> Reconcile (exampleEnv []) reqA emptyWorld =
     ((\<lparr>Requeue = True, RequeueAfter = 30000000000\<rparr>, None),
      \<lparr>cluster = [''role/ns1'', ''sa/ns1'', ''rb/ns1'', ''mount'', ''deployment''],
       calls = [(FetchCall ''runtimeA'' ''ns1'', None), (CreateCall ''role/ns1'', None),
                (CreateCall ''sa/ns1'', None), (CreateCall ''rb/ns1'', None),
                (MountCall instanceA, None),
                (DeployCall (definition_of (exampleEnv []) reqA instanceA) instanceA, None)]\<rparr>)"
  (is "?f \<and> ?r \<and> ?m \<and> ?d \<and> ?pos \<and> ?run")
proof -
  have f: ?f by (simp add: fetch_def example_defs)
  have r: ?r by (simp add: setupRBAC_def create_def example_defs)
  have m: ?m by (simp add: mount_def example_defs)
  have d: ?d by (simp add: deploy_def example_defs)
  have pos: ?pos by (simp add: word_sless_alt)
  from Reconcile_requeue[OF f r m d] pos have ?run by blast
  with f r m d pos show ?thesis by blast
qed

text \<open>
  C8: in the result of every pass the requeue flag is set exactly when the requeue delay
  is greater than zero, and a pass that returns an error returns the zero result with it.
\<close>

theorem Reconcile_result_consistent:
  assumes "Reconcile E req w = ((result, err), w')"
  shows "(Requeue result \<longleftrightarrow> 0 <s RequeueAfter result)
       \<and> (err \<noteq> None \<longrightarrow> result = \<lparr>Requeue = False, RequeueAfter = 0\<rparr>)"
  using assms
  by (cases rule: Reconcile_cases[of E w req]) (auto simp: zeroResult_def split: if_splits)

theorem Reconcile_result_consistent_witness:
  "Reconcile (exampleEnv []) reqA emptyWorld =
     ((\<lparr>Requeue = True, RequeueAfter = 30000000000\<rparr>, None),
      \<lparr>cluster = [''role/ns1'', ''sa/ns1'', ''rb/ns1'', ''mount'', ''deployment''],
       calls = [(FetchCall ''runtimeA'' ''ns1'', None), (CreateCall ''role/ns1'', None),
                (CreateCall ''sa/ns1'', None), (CreateCall ''rb/ns1'', None),
                (MountCall instanceA, None),
                (DeployCall (definition_of (exampleEnv []) reqA instanceA) instanceA, None)]\<rparr>)
   \<and> Requeue \<lparr>Requeue = True, RequeueAfter = 30000000000\<rparr>
   \<and> 0 <s RequeueAfter \<lparr>Requeue = True, RequeueAfter = 30000000000\<rparr>"
  using Reconcile_result_consistent[OF run_reqA] run_reqA by simp

subsection \<open>Errors\<close>

text \<open>
  C5: in every pass, the log the pass wrote is what the collaborators return when its
  calls are made in order from the cluster the pass started on; the calls are an initial
  segment of the fixed sequence fetch, role, service account, role binding, mount,
  deployer; every call before the last returned no error, so nothing is called after a
  call that fails; the error the pass returns is the error of its last call, unchanged;
  the cluster the pass leaves is the one its calls left, with nothing undone; and a pass
  that returns an error returns the zero result, which asks for no requeue.
\<close>

theorem Reconcile_fail_fast:
  assumes "Reconcile E req w = ((result, err), w')"
  shows "calls w' = calls w @ passLog w w'
       \<and> passLog w w' = outcomes E (map fst (passLog w w')) (cluster w)
       \<and> cluster w' = replay E (map fst (passLog w w')) (cluster w)
       \<and> (case fst (fst (FetchKogitoRuntimeService E (cluster w) (Name req) (Namespace req))) of
            None \<Rightarrow> map fst (passLog w w') = [FetchCall (Name req) (Namespace req)]
          | Some instance \<Rightarrow>
              map fst (passLog w w')
              = take (length (passLog w w'))
                  (FetchCall (Name req) (Namespace req) # passCalls E req instance))
       \<and> passLog w w' \<noteq> []
       \<and> (\<forall>x \<in> set (butlast (passLog w w')). snd x = None)
       \<and> err = snd (last (passLog w w'))
       \<and> (err \<noteq> None \<longrightarrow> result = \<lparr>Requeue = False, RequeueAfter = 0\<rparr>)"
  using assms
  by (cases rule: Reconcile_cases[of E w req])
     (auto simp: passLog_def passCalls_def zeroResult_def split: option.splits)

theorem Reconcile_fail_fast_witness:
  "Reconcile (exampleEnv [''sa/ns1'']) reqA emptyWorld =
     ((\<lparr>Requeue = False, RequeueAfter = 0\<rparr>, Some (Error ''forbidden'')),
      \<lparr>cluster = [''role/ns1''],
       calls = [(FetchCall ''runtimeA'' ''ns1'', None),
                (CreateCall ''role/ns1'', None),
                (CreateCall ''sa/ns1'', Some (Error ''forbidden''))]\<rparr>)
   \<and> snd (last (passLog emptyWorld
        \<lparr>cluster = [''role/ns1''],
         calls = [(FetchCall ''runtimeA'' ''ns1'', None),
                  (CreateCall ''role/ns1'', None),
                  (CreateCall ''sa/ns1'', Some (Error ''forbidden''))]\<rparr>))
       = Some (Error ''forbidden'')
   \<and> replay (exampleEnv [''sa/ns1''])
        [FetchCall ''runtimeA'' ''ns1'', CreateCall ''role/ns1'', CreateCall ''sa/ns1''] []
       = [''role/ns1'']"
  using Reconcile_fail_fast[OF run_reqA_sa_denied] run_reqA_sa_denied
  by (simp add: passLog_def emptyWorld_def zeroResult_def)

subsection \<open>The bootstrap\<close>

text \<open>
  C6, as the claim states it, fails where a create returns an error: on the concrete
  cluster with the role denied, the pass reaches the bootstrap, calls the create of the
  role, and calls neither the create of the service account nor that of the role
  binding.
\<close>

theorem setupRBAC_once_counterexample:
  "fst (FetchKogitoRuntimeService (exampleEnv [''role/ns1'']) (cluster emptyWorld)
          (Name reqA) (Namespace reqA)) = (Some instanceA, None)
   \<and> map fst (passLog emptyWorld (snd (Reconcile (exampleEnv [''role/ns1'']) reqA emptyWorld)))
       = [FetchCall ''runtimeA'' ''ns1'', CreateCall ''role/ns1'']
   \<and> count_list
        (map fst (passLog emptyWorld (snd (Reconcile (exampleEnv [''role/ns1'']) reqA emptyWorld))))
        (CreateCall ''sa/ns1'') = 0
   \<and> count_list
        (map fst (passLog emptyWorld (snd (Reconcile (exampleEnv [''role/ns1'']) reqA emptyWorld))))
        (CreateCall ''rb/ns1'') = 0"
  unfolding run_reqA_role_denied
  by (simp add: passLog_def example_defs)

text \<open>
  C6, amended: in every pass that reaches the bootstrap, the creates the pass calls are,
  in this order, the role, the service account and the role binding, each at most once
  and each only after every earlier one returned no error: the role alone when it fails,
  the role and the service account when the latter fails, and all three, each exactly
  once, when the role and the service account return no error.  Nothing in this depends
  on the cluster, so on whether the objects exist.
\<close>

theorem setupRBAC_order:
  assumes "fst (FetchKogitoRuntimeService E (cluster w) (Name req) (Namespace req))
             = (Some instance, None)"
  shows "(\<exists>err. filter isCreate (passLog w (snd (Reconcile E req w)))
            = [(CreateCall (getServiceViewerRole E (Namespace req)), Some err)])
       \<or> (\<exists>err. filter isCreate (passLog w (snd (Reconcile E req w)))
            = [(CreateCall (getServiceViewerRole E (Namespace req)), None),
               (CreateCall (getServiceViewerServiceAccount E (Namespace req)), Some err)])
       \<or> (\<exists>e. filter isCreate (passLog w (snd (Reconcile E req w)))
            = [(CreateCall (getServiceViewerRole E (Namespace req)), None),
               (CreateCall (getServiceViewerServiceAccount E (Namespace req)), None),
               (CreateCall (getServiceViewerRoleBinding E (Namespace req)), e)])"
  using assms
  by (cases rule: Reconcile_cases[of E w req]) (simp_all add: passLog_def)

theorem setupRBAC_order_witness:
  "fst (FetchKogitoRuntimeService (exampleEnv [])
          (cluster \<lparr>cluster = [''role/ns1'', ''sa/ns1'', ''rb/ns1''], calls = []\<rparr>)
          (Name reqA) (Namespace reqA)) = (Some instanceA, None)
   \<and> filter isCreate
        (passLog \<lparr>cluster = [''role/ns1'', ''sa/ns1'', ''rb/ns1''], calls = []\<rparr>
           (snd (Reconcile (exampleEnv []) reqA
                   \<lparr>cluster = [''role/ns1'', ''sa/ns1'', ''rb/ns1''], calls = []\<rparr>)))
       = [(CreateCall ''role/ns1'', None), (CreateCall ''sa/ns1'', None),
          (CreateCall ''rb/ns1'', None)]"
  using setupRBAC_order[of "exampleEnv []"
      "\<lparr>cluster = [''role/ns1'', ''sa/ns1'', ''rb/ns1''], calls = []\<rparr>" reqA instanceA]
  by (simp add: pass_defs exampleEnv_def reqA_def passLog_def word_sless_alt)

text \<open>
  C10: two passes whose requests have the same namespace and that reach the bootstrap on
  the same cluster log the same creates with the same outcomes, whatever the names of
  the requests and whatever the instances fetched; and \<^verbatim>\<open>setupRBAC\<close> itself
  returns the same for the two namespaces.
\<close>

theorem setupRBAC_namespace_only:
  assumes "Namespace req1 = Namespace req2"
    and "FetchKogitoRuntimeService E (cluster w1) (Name req1) (Namespace req1)
           = ((Some instance1, None), c)"
    and "FetchKogitoRuntimeService E (cluster w2) (Name req2) (Namespace req2)
           = ((Some instance2, None), c)"
  shows "filter isCreate (passLog w1 (snd (Reconcile E req1 w1)))
         = filter isCreate (passLog w2 (snd (Reconcile E req2 w2)))
       \<and> setupRBAC E (Namespace req1) \<lparr>cluster = c, calls = []\<rparr>
         = setupRBAC E (Namespace req2) \<lparr>cluster = c, calls = []\<rparr>"
  using assms(1) Reconcile_creates_setupRBAC[OF assms(2)] Reconcile_creates_setupRBAC[OF assms(3)]
  by simp

theorem setupRBAC_namespace_only_witness:
  "Namespace reqA = Namespace reqB
   \<and> Name reqA \<noteq> Name reqB
   \<and> instanceA \<noteq> instanceB
   \<and> FetchKogitoRuntimeService (exampleEnv []) (cluster emptyWorld) (Name reqA) (Namespace reqA)
       = ((Some instanceA, None), [])
   \<and> FetchKogitoRuntimeService (exampleEnv []) (cluster emptyWorld) (Name reqB) (Namespace reqB)
       = ((Some instanceB, None), [])
   \<and> filter isCreate (passLog emptyWorld (snd (Reconcile (exampleEnv []) reqA emptyWorld)))
       = filter isCreate (passLog emptyWorld (snd (Reconcile (exampleEnv []) reqB emptyWorld)))"
  (is "?ns \<and> ?names \<and> ?insts \<and> ?fa \<and> ?fb \<and> ?same")
proof -
  have ns: ?ns and names: ?names by (simp_all add: reqA_def reqB_def)
  have insts: ?insts by (simp add: instanceA_def instanceB_def)
  have fa: ?fa and fb: ?fb by (simp_all add: example_defs)
  from setupRBAC_namespace_only[OF ns fa fb] have ?same by blast
  with ns names insts fa fb show ?thesis by blast
qed

subsection \<open>The health-check probe\<close>

text \<open>
  C7: whenever a pass calls the deployer, the instance it passes is the one the fetch
  returned, the service definition carries the request, and the probe of the definition
  is the Quarkus probe exactly when the runtime type of the instance is the Quarkus
  runtime type, and the TCP probe exactly when it is any other value.
\<close>

theorem Reconcile_probe:
  assumes "Reconcile E req w = (r, w')"
    and "(DeployCall d instance, e) \<in> set (passLog w w')"
  shows "fst (fst (FetchKogitoRuntimeService E (cluster w) (Name req) (Namespace req))) = Some instance
       \<and> Request d = req
       \<and> (HealthCheckProbe d = QuarkusHealthCheckProbe
            \<longleftrightarrow> Runtime (Spec instance) = QuarkusRuntimeType E)
       \<and> (HealthCheckProbe d = TCPHealthCheckProbe
            \<longleftrightarrow> Runtime (Spec instance) \<noteq> QuarkusRuntimeType E)"
  using assms
  by (cases rule: Reconcile_cases[of E w req])
     (auto simp: passLog_def definition_of_def healthCheckProbeType_def GetSpec_def GetRuntime_def
       split: if_splits)

theorem Reconcile_probe_witness:
  "(DeployCall (definition_of (exampleEnv []) reqA instanceA) instanceA, None)
     \<in> set (passLog emptyWorld (snd (Reconcile (exampleEnv []) reqA emptyWorld)))
   \<and> Runtime (Spec instanceA) = QuarkusRuntimeType (exampleEnv [])
   \<and> HealthCheckProbe (definition_of (exampleEnv []) reqA instanceA) = QuarkusHealthCheckProbe
   \<and> (DeployCall (definition_of (exampleEnv []) reqB instanceB) instanceB, None)
     \<in> set (passLog emptyWorld (snd (Reconcile (exampleEnv []) reqB emptyWorld)))
   \<and> Runtime (Spec instanceB) \<noteq> QuarkusRuntimeType (exampleEnv [])
   \<and> HealthCheckProbe (definition_of (exampleEnv []) reqB instanceB) = TCPHealthCheckProbe"
  (is "?da \<and> ?ra \<and> ?pa \<and> ?db \<and> ?rb \<and> ?pb")
proof -
  have da: ?da unfolding run_reqA by (simp add: passLog_def emptyWorld_def)
  have db: ?db unfolding run_reqB by (simp add: passLog_def emptyWorld_def)
  have ra: ?ra by (simp add: instanceA_def exampleEnv_def)
  have rb: ?rb by (simp add: instanceB_def exampleEnv_def)
  from Reconcile_probe[OF surjective_pairing da] ra have pa: ?pa by blast
  from Reconcile_probe[OF surjective_pairing db] rb have pb: ?pb by blast
  from da ra pa db rb pb show ?thesis by blast
qed

subsection \<open>Idempotence\<close>

text \<open>
  C1: when the collaborators keep their idempotence contract for the key of the request
  and a pass has returned no error, a second pass for the same request, started in the
  world the first one left, returns no error, leaves the cluster as the first pass left
  it, and logs the calls of the first pass again, each once and each without error; and
  every one of those calls is settled on that cluster: it changes nothing there, so
  nothing is created twice.
\<close>

theorem Reconcile_idempotent:
  assumes c: "idempotentCollaborators E req"
    and p: "Reconcile E req w = ((result, None), w1)"
  shows "snd (fst (Reconcile E req w1)) = None
       \<and> cluster (snd (Reconcile E req w1)) = cluster w1
       \<and> passLog w1 (snd (Reconcile E req w1)) = passLog w w1
       \<and> (\<forall>a \<in> set (map fst (passLog w w1)). settled E a (cluster w1))"
proof (cases rule: Reconcile_cases[of E w req])
  case (absent c0)
  from fetch_reads[OF c, of "cluster w"] absent(1) have "c0 = cluster w"
    by simp
  with absent p show ?thesis
    by (auto simp: Reconcile_def fetch_def passLog_def settled_def)
next
  case (complete i c0 c1 c2 c3 c4 d c5)
  let ?R = "CreateCall (getServiceViewerRole E (Namespace req))"
  let ?S = "CreateCall (getServiceViewerServiceAccount E (Namespace req))"
  let ?B = "CreateCall (getServiceViewerRoleBinding E (Namespace req))"
  let ?M = "MountCall i"
  let ?D = "DeployCall (definition_of E req i) i"
  let ?F = "\<lambda>c. fst (FetchKogitoRuntimeService E c (Name req) (Namespace req))"
  have mem: "?R \<in> set (passCalls E req i)" "?S \<in> set (passCalls E req i)"
    "?B \<in> set (passCalls E req i)" "?M \<in> set (passCalls E req i)"
    "?D \<in> set (passCalls E req i)"
    by (simp_all add: passCalls_def)
  from fetch_reads[OF c, of "cluster w"] complete(1) have c0: "c0 = cluster w"
    by simp
  have pr: "perform E ?R c0 = (None, c1)" using complete(2) by simp
  have ps: "perform E ?S c1 = (None, c2)" using complete(3) by simp
  have pb: "perform E ?B c2 = (None, c3)" using complete(4) by simp
  have pm: "perform E ?M c3 = (None, c4)" using complete(5) by simp
  have pd: "perform E ?D c4 = (None, c5)" using complete(6) by simp
  note sr = contract_step[OF c mem(1) pr]
  note ss = contract_step[OF c mem(2) ps]
  note sb = contract_step[OF c mem(3) pb]
  note sm = contract_step[OF c mem(4) pm]
  note sd = contract_step[OF c mem(5) pd]
  have R5: "settled E ?R c5"
    using sr(1) ss(3)[OF mem(1)] sb(3)[OF mem(1)] sm(3)[OF mem(1)] sd(3)[OF mem(1)] by blast
  have S5: "settled E ?S c5"
    using ss(1) sb(3)[OF mem(2)] sm(3)[OF mem(2)] sd(3)[OF mem(2)] by blast
  have B5: "settled E ?B c5"
    using sb(1) sm(3)[OF mem(3)] sd(3)[OF mem(3)] by blast
  have M5: "settled E ?M c5"
    using sm(1) sd(3)[OF mem(4)] by blast
  have D5: "settled E ?D c5"
    using sd(1) .
  have "?F c5 = ?F c0"
    using sr(2) ss(2) sb(2) sm(2) sd(2) by simp
  with complete(1) c0 have "?F c5 = (Some i, None)"
    by simp
  with fetch_reads[OF c, of c5]
  have f5: "FetchKogitoRuntimeService E c5 (Name req) (Namespace req) = ((Some i, None), c5)"
    by (metis prod.collapse)
  from complete(7) p have w1: "w1 =
      \<lparr>cluster = c5,
       calls = calls w @ map (\<lambda>a. (a, None)) (FetchCall (Name req) (Namespace req)
                                                  # passCalls E req i)\<rparr>"
    by (simp add: passCalls_def)
  have all: "\<And>a. a \<in> set (passCalls E req i) \<Longrightarrow> settled E a (cluster w1)"
    using R5 S5 B5 M5 D5 w1 by (auto simp: passCalls_def)
  from f5 w1 have f: "FetchKogitoRuntimeService E (cluster w1) (Name req) (Namespace req)
                        = ((Some i, None), cluster w1)"
    by simp
  have "settled E (FetchCall (Name req) (Namespace req)) (cluster w1)"
    using f by (simp add: settled_def)
  with all have "\<forall>a \<in> set (map fst (passLog w w1)). settled E a (cluster w1)"
    by (simp add: passLog_def w1 o_def)
  with Reconcile_settled[OF f all] show ?thesis
    by (simp add: passLog_def w1)
qed (use p in simp_all)

theorem Reconcile_idempotent_witness:
  "idempotentCollaborators (exampleEnv []) reqA
   \<and> Reconcile (exampleEnv []) reqA emptyWorld =
     ((\<lparr>Requeue = True, RequeueAfter = 30000000000\<rparr>, None),
      \<lparr>cluster = [''role/ns1'', ''sa/ns1'', ''rb/ns1'', ''mount'', ''deployment''],
       calls = [(FetchCall ''runtimeA'' ''ns1'', None), (CreateCall ''role/ns1'', None),
                (CreateCall ''sa/ns1'', None), (CreateCall ''rb/ns1'', None),
                (MountCall instanceA, None),
                (DeployCall (definition_of (exampleEnv []) reqA instanceA) instanceA, None)]\<rparr>)
   \<and> snd (fst (Reconcile (exampleEnv []) reqA
        \<lparr>cluster = [''role/ns1'', ''sa/ns1'', ''rb/ns1'', ''mount'', ''deployment''],
         calls = [(FetchCall ''runtimeA'' ''ns1'', None), (CreateCall ''role/ns1'', None),
                  (CreateCall ''sa/ns1'', None), (CreateCall ''rb/ns1'', None),
                  (MountCall instanceA, None),
                  (DeployCall (definition_of (exampleEnv []) reqA instanceA) instanceA, None)]\<rparr>))
       = None
   \<and> cluster (snd (Reconcile (exampleEnv []) reqA
        \<lparr>cluster = [''role/ns1'', ''sa/ns1'', ''rb/ns1'', ''mount'', ''deployment''],
         calls = [(FetchCall ''runtimeA'' ''ns1'', None), (CreateCall ''role/ns1'', None),
                  (CreateCall ''sa/ns1'', None), (CreateCall ''rb/ns1'', None),
                  (MountCall instanceA, None),
                  (DeployCall (definition_of (exampleEnv []) reqA instanceA) instanceA, None)]\<rparr>))
       = [''role/ns1'', ''sa/ns1'', ''rb/ns1'', ''mount'', ''deployment'']"
  using Reconcile_idempotent[OF exampleEnv_idempotent run_reqA] exampleEnv_idempotent run_reqA
  by simp

end
